theory Spec2Isabelle
  imports Main "HOL-Library.Word"
begin

unbundle bit_operations_syntax

section \<open>Common data of the p2p packages\<close>

text \<open>
  Go values as they appear in \<^verbatim>\<open>p2p/dht\<close> and \<^verbatim>\<open>p2p/peer\<close>:
  a byte is an 8-bit word, \<^verbatim>\<open>config.NodeID\<close> and \<^verbatim>\<open>Hash\<close> are byte
  arrays (lists of bytes here; \<^verbatim>\<open>Hash\<close> has \<^verbatim>\<open>HashByteLength = 32\<close> entries),
  Go's \<^verbatim>\<open>int\<close> is modelled by \<^typ>\<open>int\<close> (the counters and distances below stay
  far inside 64 bits). A run-time panic of Go is a value of type \<open>fault\<close>; a function
  that can panic returns \<open>fault + 'a\<close>.
\<close>

type_synonym byte = "8 word"
type_synonym NodeID = "byte list"
type_synonym Hash = "byte list"

datatype fault = IndexOutOfRange | NilDereference | TypeAssertion | Panic string

record Node =
  IP :: "byte list"
  UDP :: "16 word"
  TCP :: "16 word"
  ID :: NodeID

datatype DhtErrno =
  DhtEnoNone | DhtEnoParameter | DhtEnoScheduler | DhtEnoNotFound | DhtEnoResource
  | DhtEnoDuplicated | DhtEnoMismatched | DhtEnoTimeout | DhtEnoRoute | DhtEnoNatMapping
  | DhtEnoUnknown

section \<open>Route manager (p2p/dht/route.go)\<close>

definition rutMgrMaxNearest :: int where "rutMgrMaxNearest = 32"
definition rutMgrBucketSize :: int where "rutMgrBucketSize = 32"
definition HashByteLength :: nat where "HashByteLength = 32"
definition HashBitLength :: nat where "HashBitLength = HashByteLength * 8"
definition rutMgrMaxLatency :: int where "rutMgrMaxLatency = 60 * 1000000000"

record rutMgrPeerMetric =
  peerId :: NodeID
  ltnSamples :: "int list"
  ewma :: int

record rutMgrBucketNode =
  node :: Node
  hash :: Hash
  dist :: int

text \<open>
  \<^verbatim>\<open>bucketTab []*list.List\<close>: a slice of buckets, each bucket a doubly linked list
  whose front is the head of the HOL list. The only pointers ever stored in the slice
  come from \<^verbatim>\<open>list.New()\<close>, so a bucket is never nil. A \<^verbatim>\<open>*list.Element\<close>
  of a bucket is its position in the list; nil is \<open>None\<close>.
\<close>

record rutMgrRouteTable =
  shaLocal :: Hash
  bucketSize :: int
  bucketTab :: "rutMgrBucketNode list list"
  metricTab :: "NodeID \<rightharpoonup> rutMgrPeerMetric"
  maxLatency :: int

subsection \<open>The log2 distance and its lookup table\<close>

definition set_at :: "'a list \<Rightarrow> nat \<Rightarrow> 'a \<Rightarrow> fault + 'a list" where
  "set_at l i v = (if i < length l then Inr (l[i := v]) else Inl IndexOutOfRange)"




text \<open>
  \<^verbatim>\<open>for i, b := range h2 { delta := lkt[h1[i] ^ b]; d += delta; if delta != 8 { break } }\<close>.
  Both arguments are \<^verbatim>\<open>*Hash\<close>; a nil \<^verbatim>\<open>h1\<close> is \<open>None\<close> and indexing it
  panics. The table is the manager's \<^verbatim>\<open>distLookupTab\<close>.
\<close>

fun log2dist_loop :: "int list \<Rightarrow> byte list \<Rightarrow> byte list \<Rightarrow> int \<Rightarrow> fault + int" where
  "log2dist_loop lkt h1 [] d = Inr d"
| "log2dist_loop lkt [] (b # h2) d = Inl IndexOutOfRange"
| "log2dist_loop lkt (a # h1) (b # h2) d =
     (let k = unat (a XOR b) in
      if k < length lkt then
        (let delta = lkt ! k; d' = d + delta in
         if delta \<noteq> 8 then Inr d' else log2dist_loop lkt h1 h2 d')
      else Inl IndexOutOfRange)"

definition rutMgrLog2Dist :: "int list \<Rightarrow> Hash option \<Rightarrow> Hash \<Rightarrow> fault + int" where
  "rutMgrLog2Dist lkt h1 h2 =
     (case h1 of
        None \<Rightarrow> (if h2 = [] then Inr 0 else Inl NilDereference)
      | Some h \<Rightarrow> log2dist_loop lkt h h2 0)"

subsection \<open>The route table\<close>

record RutMgr =
  distLookupTab :: "int list"
  localNodeId :: NodeID
  rutTab :: rutMgrRouteTable

text \<open>
  \<^verbatim>\<open>rutMgrNodeId2Hash\<close> is \<^verbatim>\<open>sha256.Sum256\<close> of the standard library; the functions
  that call it take it as the parameter \<open>nodeId2Hash\<close>.

  \<^verbatim>\<open>rutMgrSetupRouteTable\<close> assigns every field of the table;
  \<^verbatim>\<open>make([]*list.List, 0, HashBitLength + 1)\<close> is a slice of length 0.
\<close>

definition rutMgrSetupRouteTable :: "(NodeID \<Rightarrow> Hash) \<Rightarrow> RutMgr \<Rightarrow> DhtErrno \<times> RutMgr" where
  "rutMgrSetupRouteTable nodeId2Hash rutMgr =
     (DhtEnoNone,
      rutMgr\<lparr>rutTab :=
        \<lparr>shaLocal = nodeId2Hash (localNodeId rutMgr),
         bucketSize = rutMgrBucketSize,
         bucketTab = [],
         metricTab = Map.empty,
         maxLatency = rutMgrMaxLatency\<rparr>\<rparr>)"

definition rutMgrMetricGetEWMA :: "rutMgrRouteTable \<Rightarrow> NodeID \<Rightarrow> DhtErrno \<times> int" where
  "rutMgrMetricGetEWMA rt nid =
     (case metricTab rt nid of Some m \<Rightarrow> (DhtEnoNone, ewma m) | None \<Rightarrow> (DhtEnoNotFound, - 1))"

definition el_Front :: "'a list \<Rightarrow> nat option" where
  "el_Front li = (if li = [] then None else Some 0)"

definition el_Next :: "'a list \<Rightarrow> nat \<Rightarrow> nat option" where
  "el_Next li i = (if Suc i < length li then Some (Suc i) else None)"

definition MoveToFront :: "'a list \<Rightarrow> nat \<Rightarrow> 'a list" where
  "MoveToFront li i = (li ! i) # (take i li @ drop (Suc i) li)"

text \<open>
  The loop of \<^verbatim>\<open>find\<close>:
  \<^verbatim>\<open>for el := li.Front(); el != nil; el.Next() { if el.Value.(*rutMgrBucketNode).node.ID == id { return DhtEnoNone, el } }\<close>.
  The post statement calls \<^verbatim>\<open>el.Next()\<close> and drops its result, so \<^verbatim>\<open>el\<close> is the
  same element in the next round. The loop need not return: the value \<open>None\<close> of the
  option stands for a run that never returns.
\<close>

partial_function (option) find_loop ::
  "rutMgrBucketNode list \<Rightarrow> NodeID \<Rightarrow> nat option \<Rightarrow> (DhtErrno \<times> nat option) option" where
  "find_loop li nid el =
     (case el of
        None \<Rightarrow> Some (DhtEnoNotFound, None)
      | Some i \<Rightarrow>
          if ID (node (li ! i)) = nid then Some (DhtEnoNone, Some i)
          else (let dropped = el_Next li i in find_loop li nid el))"

definition find ::
  "rutMgrRouteTable \<Rightarrow> NodeID \<Rightarrow> int \<Rightarrow> (fault + DhtErrno \<times> nat option) option" where
  "find rt nid dst =
     (if dst \<ge> int (length (bucketTab rt)) then Some (Inr (DhtEnoNotFound, None))
      else if dst < 0 then Some (Inl IndexOutOfRange)
      else map_option Inr
             (find_loop (bucketTab rt ! nat dst) nid (el_Front (bucketTab rt ! nat dst))))"

text \<open>
  \<^verbatim>\<open>split\<close>. The buckets hold \<^verbatim>\<open>*rutMgrBucketNode\<close> (\<^verbatim>\<open>update\<close> pushes the
  pointer \<^verbatim>\<open>bn\<close>), and the first statement of the loop is the type assertion
  \<^verbatim>\<open>el.Value.(rutMgrBucketNode)\<close> to the struct type, which panics on a pointer; what
  follows it in the source is never reached.
\<close>

definition split ::
  "rutMgrRouteTable \<Rightarrow> rutMgrBucketNode list \<Rightarrow> int \<Rightarrow> fault + DhtErrno \<times> rutMgrRouteTable" where
  "split rt li dst =
     (if int (length (bucketTab rt)) - 1 \<noteq> dst then Inr (DhtEnoParameter, rt)
      else if length li = 0 then Inr (DhtEnoParameter, rt)
      else Inl TypeAssertion)"

text \<open>
  \<^verbatim>\<open>update\<close>, after \<^verbatim>\<open>tail\<close> is fixed: look the peer up, move it to the front
  when found, otherwise check the latency and push it to the back of the tail bucket.
\<close>

definition update_found ::
  "rutMgrRouteTable \<Rightarrow> int \<Rightarrow> nat \<Rightarrow> fault + DhtErrno \<times> rutMgrRouteTable" where
  "update_found rt dst i =
     (if 0 \<le> dst \<and> dst < int (length (bucketTab rt)) then
        Inr (DhtEnoNone,
             rt\<lparr>bucketTab := (bucketTab rt)[nat dst := MoveToFront (bucketTab rt ! nat dst) i]\<rparr>)
      else Inl IndexOutOfRange)"

definition update_insert ::
  "rutMgrRouteTable \<Rightarrow> nat \<Rightarrow> rutMgrBucketNode \<Rightarrow> fault + DhtErrno \<times> rutMgrRouteTable" where
  "update_insert rt tail bn =
     (case rutMgrMetricGetEWMA rt (ID (node bn)) of
        (eno, ew) \<Rightarrow>
          if eno \<noteq> DhtEnoNone then Inr (eno, rt)
          else if ew > maxLatency rt then Inr (DhtEnoNone, rt)
          else if tail < length (bucketTab rt) then
            (let tailBucket = (bucketTab rt ! tail) @ [bn];
                 rt' = rt\<lparr>bucketTab := (bucketTab rt)[tail := tailBucket]\<rparr>
             in if int (length tailBucket) > bucketSize rt' then
                  (case split rt' tailBucket (int tail) of
                     Inl e \<Rightarrow> Inl e
                   | Inr (eno', rt'') \<Rightarrow> Inr (DhtEnoNone, rt''))
                else Inr (DhtEnoNone, rt'))
          else Inl IndexOutOfRange)"

definition update_body ::
  "rutMgrRouteTable \<Rightarrow> nat \<Rightarrow> rutMgrBucketNode \<Rightarrow> int \<Rightarrow>
   (fault + DhtErrno \<times> rutMgrRouteTable) option" where
  "update_body rt tail bn dst =
     (case find rt (ID (node bn)) dst of
        None \<Rightarrow> None
      | Some (Inl e) \<Rightarrow> Some (Inl e)
      | Some (Inr (eno, el)) \<Rightarrow>
          (case el of
             Some i \<Rightarrow> if eno = DhtEnoNone then Some (update_found rt dst i)
                       else Some (update_insert rt tail bn)
           | None \<Rightarrow> Some (update_insert rt tail bn)))"

text \<open>
  \<^verbatim>\<open>tail := len(rt.bucketTab); if tail == 0 { rt.bucketTab[0] = list.New() } else { tail-- }\<close>:
  the assignment indexes the slice, it does not append to it.
\<close>

definition update ::
  "rutMgrRouteTable \<Rightarrow> rutMgrBucketNode \<Rightarrow> int \<Rightarrow>
   (fault + DhtErrno \<times> rutMgrRouteTable) option" where
  "update rt bn dst =
     (let tail = length (bucketTab rt) in
      if tail = 0 then
        (case set_at (bucketTab rt) 0 [] of
           Inl e \<Rightarrow> Some (Inl e)
         | Inr tab \<Rightarrow> update_body (rt\<lparr>bucketTab := tab\<rparr>) tail bn dst)
      else update_body rt (tail - 1) bn dst)"

subsection \<open>Nearest peers\<close>

text \<open>
  \<^verbatim>\<open>rutMgrSortPeer\<close>: first a list \<^verbatim>\<open>li\<close> of the indices of \<^verbatim>\<open>ds\<close>, each inserted
  before the first index with a larger distance; then, for the \<open>i\<close>-th index \<open>pi\<close> of
  \<^verbatim>\<open>li\<close>, the swaps \<^verbatim>\<open>ps[i], ps[pi] = ps[pi], ps[i]\<close> and
  \<^verbatim>\<open>ds[i], ds[pi] = ds[pi], ds[i]\<close>, one after the other on the same slices.
\<close>

fun sort_insert :: "int list \<Rightarrow> nat \<Rightarrow> nat list \<Rightarrow> nat list" where
  "sort_insert ds i [] = [i]"
| "sort_insert ds i (e # es) =
     (if ds ! i < ds ! e then i # e # es else e # sort_insert ds i es)"

definition sort_index :: "int list \<Rightarrow> nat list" where
  "sort_index ds = fold (\<lambda>i li. sort_insert ds i li) [0 ..< length ds] []"

definition swap :: "'a list \<Rightarrow> nat \<Rightarrow> nat \<Rightarrow> 'a list" where
  "swap xs i j = xs[i := xs ! j, j := xs ! i]"

fun sort_swaps :: "nat list \<Rightarrow> nat \<Rightarrow> 'a list \<Rightarrow> int list \<Rightarrow> fault + 'a list \<times> int list" where
  "sort_swaps [] i ps ds = Inr (ps, ds)"
| "sort_swaps (pi # li) i ps ds =
     (if i < length ps \<and> pi < length ps \<and> i < length ds \<and> pi < length ds
      then sort_swaps li (Suc i) (swap ps i pi) (swap ds i pi)
      else Inl IndexOutOfRange)"

definition rutMgrSortPeer :: "'a list \<Rightarrow> int list \<Rightarrow> fault + 'a list \<times> int list" where
  "rutMgrSortPeer ps ds =
     (if length ps = 0 \<or> length ds = 0 then Inr (ps, ds)
      else sort_swaps (sort_index ds) 0 ps ds)"

text \<open>The closure \<^verbatim>\<open>addClosest\<close> of \<^verbatim>\<open>rutMgrNearest\<close>; it returns \<^verbatim>\<open>count\<close>
  and leaves the two slices updated.\<close>

fun addClosest_loop ::
  "int list \<Rightarrow> Hash \<Rightarrow> int \<Rightarrow> rutMgrBucketNode list \<Rightarrow>
   rutMgrBucketNode list \<times> int list \<times> int \<Rightarrow> fault + rutMgrBucketNode list \<times> int list \<times> int" where
  "addClosest_loop lkt ht sz [] acc = Inr acc"
| "addClosest_loop lkt ht sz (peer # rest) (nearest, nearestDist, count) =
     (case rutMgrLog2Dist lkt (Some ht) (hash peer) of
        Inl e \<Rightarrow> Inl e
      | Inr dt \<Rightarrow>
          if count + 1 \<ge> sz then Inr (nearest @ [peer], nearestDist @ [dt], count + 1)
          else addClosest_loop lkt ht sz rest (nearest @ [peer], nearestDist @ [dt], count + 1))"

definition addClosest ::
  "int list \<Rightarrow> Hash \<Rightarrow> int \<Rightarrow> rutMgrBucketNode list \<Rightarrow>
   rutMgrBucketNode list \<times> int list \<Rightarrow> fault + rutMgrBucketNode list \<times> int list \<times> int" where
  "addClosest lkt ht sz bk acc =
     addClosest_loop lkt ht sz bk (fst acc, snd acc, int (length (fst acc)))"

text \<open>One of the three bucket scans: \<open>Inr (True, _)\<close> is \<^verbatim>\<open>goto _done\<close>.\<close>

fun scan_buckets ::
  "int list \<Rightarrow> Hash \<Rightarrow> int \<Rightarrow> rutMgrBucketNode list list \<Rightarrow> nat list \<Rightarrow>
   rutMgrBucketNode list \<times> int list \<Rightarrow>
   fault + bool \<times> rutMgrBucketNode list \<times> int list" where
  "scan_buckets lkt ht sz tab [] acc = Inr (False, acc)"
| "scan_buckets lkt ht sz tab (loop # loops) acc =
     (if loop < length tab then
        (case addClosest lkt ht sz (tab ! loop) acc of
           Inl e \<Rightarrow> Inl e
         | Inr (nearest, nearestDist, count) \<Rightarrow>
             if count \<ge> sz then Inr (True, nearest, nearestDist)
             else scan_buckets lkt ht sz tab loops (nearest, nearestDist))
      else Inl IndexOutOfRange)"

definition nearest_done ::
  "rutMgrBucketNode list \<times> int list \<Rightarrow>
   fault + DhtErrno \<times> rutMgrBucketNode list \<times> int list" where
  "nearest_done acc =
     (if length (fst acc) > 0 then
        (case rutMgrSortPeer (fst acc) (snd acc) of
           Inl e \<Rightarrow> Inl e
         | Inr (ps, ds) \<Rightarrow> Inr (DhtEnoNone, ps, ds))
      else Inr (DhtEnoNone, fst acc, snd acc))"

definition rutMgrNearest ::
  "(NodeID \<Rightarrow> Hash) \<Rightarrow> RutMgr \<Rightarrow> NodeID \<Rightarrow> int \<Rightarrow>
   fault + DhtErrno \<times> rutMgrBucketNode list \<times> int list" where
  "rutMgrNearest nodeId2Hash rutMgr target sz =
     (let ht = nodeId2Hash target;
          lkt = distLookupTab rutMgr;
          tab = bucketTab (rutTab rutMgr)
      in case rutMgrLog2Dist lkt (Some (shaLocal (rutTab rutMgr))) ht of
           Inl e \<Rightarrow> Inl e
         | Inr dt \<Rightarrow>
             if sz \<le> 0 \<or> sz > rutMgrMaxNearest then Inr (DhtEnoParameter, [], [])
             else if dt < 0 then Inl IndexOutOfRange
             else
               (case scan_buckets lkt ht sz tab [nat dt] ([], []) of
                  Inl e \<Rightarrow> Inl e
                | Inr (True, acc) \<Rightarrow> nearest_done acc
                | Inr (False, acc) \<Rightarrow>
                    (case scan_buckets lkt ht sz tab [nat dt + 1 ..< length tab] acc of
                       Inl e \<Rightarrow> Inl e
                     | Inr (True, acc') \<Rightarrow> nearest_done acc'
                     | Inr (False, acc') \<Rightarrow>
                         if dt \<le> 0 then nearest_done acc'
                         else
                           (case scan_buckets lkt ht sz tab (rev [0 ..< nat dt]) acc' of
                              Inl e \<Rightarrow> Inl e
                            | Inr (d, acc'') \<Rightarrow> nearest_done acc''))))"

subsection \<open>Example values for the concrete evaluations\<close>

text \<open>
  The table that \<^verbatim>\<open>rutMgrSetupLog2DistLKT\<close> leaves in a slice of 256 entries
  (lemma \<open>setup_lkt_256\<close> below).
\<close>

definition log2DistLKT :: "int list" where
  "log2DistLKT = 8 # concat (map (\<lambda>n. replicate (2 ^ n) (7 - int n)) [0 ..< 8])"

text \<open>
  SHA-256 on the four node identities of the examples (64 bytes of 1, of 2, of 3 and of
  6), as a reference implementation computes it; the examples use no other identity.
\<close>

definition exampleHash :: "NodeID \<Rightarrow> Hash" where
  "exampleHash nid =
     (if nid = replicate 64 1 then
        [0x7c, 0x89, 0x75, 0xe1, 0xe6, 0x0a, 0x5c, 0x83, 0x37, 0xf2, 0x8e, 0xdf, 0x8c, 0x33,
         0xc3, 0xb1, 0x80, 0x36, 0x0b, 0x72, 0x79, 0x64, 0x4a, 0x9b, 0xc1, 0xaf, 0x3c, 0x51,
         0xe6, 0x22, 0x0b, 0xf5]
      else if nid = replicate 64 2 then
        [0xf8, 0x3b, 0x33, 0x2b, 0xe4, 0xe6, 0xa5, 0xa4, 0xb1, 0xc5, 0x6a, 0xaf, 0x6d, 0xb5,
         0x26, 0x57, 0xda, 0x49, 0x5e, 0x14, 0x98, 0x70, 0x05, 0x7d, 0x85, 0x90, 0xab, 0x9d,
         0x7a, 0x61, 0x67, 0xad]
      else if nid = replicate 64 3 then
        [0x6a, 0xa5, 0x6c, 0x4b, 0xcd, 0x20, 0x89, 0x11, 0x79, 0x2a, 0xd2, 0x4c, 0x76, 0x81,
         0xfe, 0xfb, 0x93, 0xbe, 0xd5, 0x19, 0x03, 0xaf, 0xc5, 0x48, 0x60, 0xc9, 0xbd, 0x37,
         0xe4, 0x1e, 0x5a, 0x31]
      else if nid = replicate 64 6 then
        [0x13, 0x52, 0x28, 0x6f, 0x7d, 0xdd, 0xf6, 0x5e, 0xfc, 0xe5, 0x2c, 0x78, 0x94, 0x76,
         0xc7, 0xe9, 0x17, 0xec, 0xdd, 0x98, 0xd1, 0xc1, 0xca, 0x9a, 0xb2, 0xdd, 0xe1, 0xe4,
         0x96, 0x4c, 0xae, 0xfe]
      else replicate 32 0)"

definition exampleNode :: "byte \<Rightarrow> Node" where
  "exampleNode k = \<lparr>IP = [10, 0, 0, k], UDP = 30303, TCP = 30303, ID = replicate 64 k\<rparr>"

definition examplePeer :: "byte \<Rightarrow> rutMgrBucketNode" where
  "examplePeer k = \<lparr>node = exampleNode k, hash = exampleHash (replicate 64 k), dist = 0\<rparr>"

text \<open>
  A route manager whose local identity is 64 bytes of 2 and whose only bucket holds the
  peers 3 and 6, in this order; both are at distance 0 from the local hash.
\<close>

definition exampleRutMgr :: RutMgr where
  "exampleRutMgr =
     \<lparr>distLookupTab = log2DistLKT,
      localNodeId = replicate 64 2,
      rutTab = \<lparr>shaLocal = exampleHash (replicate 64 2), bucketSize = rutMgrBucketSize,
                bucketTab = [[examplePeer 3, examplePeer 6]], metricTab = Map.empty,
                maxLatency = rutMgrMaxLatency\<rparr>\<rparr>"

section \<open>Query manager (p2p/dht/query.go)\<close>

text \<open>
  A task node pointer (\<^verbatim>\<open>interface{}\<close> in the source) is a number, nil is \<open>None\<close>.
  The scheduler and the NAT package are not part of these sources: what the manager asks
  them (\<^verbatim>\<open>SchGetUserTaskNode\<close>, \<^verbatim>\<open>SchCreateTask\<close>, \<^verbatim>\<open>SchInvalidTid\<close>,
  \<^verbatim>\<open>nat.NatIsStatusOk\<close>) is a parameter of the model, and what it tells the scheduler
  (\<^verbatim>\<open>SchSendMessage\<close>, \<^verbatim>\<open>SchKillTimer\<close>) is appended to a log, in the order of
  the calls. An errno travels in a message as its integer code (\<^verbatim>\<open>GetEno()\<close>); the
  model keeps the errno itself. A task name built with \<^verbatim>\<open>Sprintf("_q%d_i%d", ...)\<close>
  is kept as the two numbers.
\<close>

type_synonym ptn = nat
type_synonym DsKey = "byte list"

datatype SchErrno =
  SchEnoNone | SchEnoParameter | SchEnoUserTask | SchEnoNotFound | SchEnoMismatched
  | SchEnoInternal | SchEnoResource | SchEnoUnknown

datatype TaskName = ConMgrName | RutMgrName | DhtMgrName | NatMgrName | QryMgrIcbName int int

datatype EventId =
  EvSchPoweron | EvSchPoweroff
  | EvDhtQryMgrQueryResultInd | EvDhtQryMgrPubAddrSwitchInd | EvDhtQryInstStartReq
  | EvDhtRutMgrStopNotifyReq | EvDhtRutMgrUpdateReq
  | EvDhtMgrPutValueReq | EvDhtMgrPutProviderReq
  | EvDhtConInstNeighbors | EvDhtConInstGetProviderRsp | EvDhtConInstGetValRsp
  | EvNatMgrPubAddrUpdateInd | EvOther int

text \<open>\<^verbatim>\<open>DhtMessage.MessageType\<close> of the DHT protocol.\<close>

datatype MessageType =
  MID_HANDSHAKE | MID_FINDNODE | MID_NEIGHBORS | MID_PUTVALUE | MID_GETVALUE_REQ
  | MID_GETVALUE_RSP | MID_PUTPROVIDER | MID_GETPROVIDER_REQ | MID_GETPROVIDER_RSP
  | MID_PING | MID_PONG

record MsgDhtQryMgrQueryResultInd =
  Eno :: DhtErrno
  ForWhat :: MessageType
  Target :: DsKey
  Peers :: "Node option list"
  Val :: "byte list"
  Prds :: "Node option list"

record MsgNatMgrPubAddrUpdateInd =
  Proto :: string
  Status :: int
  PubIp :: "byte list"
  PubPort :: int

record MsgDhtRutMgrUpdateReq =
  Seens :: "Node list"
  Duras :: "int list"

datatype MsgBody =
  BodyNil
  | BodyQueryResultInd MsgDhtQryMgrQueryResultInd
  | BodyPubAddrUpdateInd MsgNatMgrPubAddrUpdateInd
  | BodyStopNotifyReq "ptn option" DsKey
  | BodyUpdateReq MsgDhtRutMgrUpdateReq

record SchMessage =
  sender :: "ptn option"
  recver :: "ptn option"
  Id :: EventId
  Body :: MsgBody
  TgtName :: "TaskName option"

definition SchMakeMessage ::
  "ptn option \<Rightarrow> ptn option \<Rightarrow> EventId \<Rightarrow> MsgBody \<Rightarrow> SchMessage" where
  "SchMakeMessage s r ev body = \<lparr>sender = s, recver = r, Id = ev, Body = body, TgtName = None\<rparr>"

datatype SchCall = SchSendMessage SchMessage | SchKillTimer "ptn option" int

record Scheduler =
  SchInvalidTid :: int
  SchGetUserTaskNode :: "TaskName \<Rightarrow> SchErrno \<times> ptn option"
  SchCreateTask :: "TaskName \<Rightarrow> SchErrno \<times> ptn option"
  NatIsStatusOk :: "int \<Rightarrow> bool"


definition qsNull :: int where "qsNull = 0"
definition qsPreparing :: int where "qsPreparing = 1"
definition qsInited :: int where "qsInited = 2"


record qryResultInfo =
  qri_node :: Node
  pcs :: int
  qri_dist :: int

record qryPendingInfo = rutMgrBucketNode +
  pnd_depth :: int

record qryInstCtrlBlock =
  icb_seq :: int
  name :: TaskName
  ptnInst :: "ptn option"
  icb_status :: int
  icb_target :: DsKey
  to :: Node
  qTid :: int
  icb_depth :: int

text \<open>
  The two lists of a control block are \<^verbatim>\<open>*list.List\<close> and are nil until the nearest
  response is handled: \<open>None\<close> is the nil list. The Go maps whose entries the code
  ranges over (\<^verbatim>\<open>qcbTab\<close>, \<^verbatim>\<open>qryActived\<close>) are association lists with one entry
  per key: the order of the list is the order in which the run time visits the entries.
  \<^verbatim>\<open>qryHistory\<close>, whose length the code reads, is one as well.
\<close>

record qryCtrlBlock =
  ptnOwner :: "ptn option"
  seq :: int
  forWhat :: MessageType
  target :: DsKey
  status :: int
  qryHistory :: "(NodeID \<times> qryPendingInfo) list"
  qryPending :: "qryPendingInfo list option"
  qryActived :: "(NodeID \<times> qryInstCtrlBlock) list"
  qryResult :: "qryResultInfo list option"
  qryTid :: int
  icbSeq :: int
  rutNtfFlag :: bool
  width :: int
  depth :: int

record qryMgrCfg =
  local :: Node
  maxPendings :: int
  maxActInsts :: int

record QryMgr =
  ptnMe :: "ptn option"
  ptnRutMgr :: "ptn option"
  ptnDhtMgr :: "ptn option"
  ptnNatMgr :: "ptn option"
  qcbTab :: "(DsKey \<times> qryCtrlBlock) list"
  qmCfg :: qryMgrCfg
  qcbSeq :: int
  natTcpResult :: bool
  pubTcpIp :: "byte list"
  pubTcpPort :: int
  sdlLog :: "SchCall list"

subsection \<open>Go maps as association lists\<close>

definition tab_delete :: "'k \<Rightarrow> ('k \<times> 'v) list \<Rightarrow> ('k \<times> 'v) list" where
  "tab_delete k tab = filter (\<lambda>kv. fst kv \<noteq> k) tab"

definition tab_store :: "'k \<Rightarrow> 'v \<Rightarrow> ('k \<times> 'v) list \<Rightarrow> ('k \<times> 'v) list" where
  "tab_store k v tab =
     (if k \<in> fst ` set tab then map (\<lambda>kv. if fst kv = k then (k, v) else kv) tab
      else tab @ [(k, v)])"

definition send :: "SchMessage \<Rightarrow> QryMgr \<Rightarrow> QryMgr" where
  "send m qryMgr = qryMgr\<lparr>sdlLog := sdlLog qryMgr @ [SchSendMessage m]\<rparr>"

subsection \<open>Deleting a control block\<close>

datatype delWhy =
  delQcb4TargetFound | delQcb4NoMoreQueries | delQcb4Timeout | delQcb4Command
  | delQcb4NoSeeds | delQcb4TargetInLocal | delQcb4QryInstDoneInd
  | delQcb4QryInstResultInd | delQcb4InteralErrors | delQcb4PubAddrSwitch

definition poweroff_msg :: "QryMgr \<Rightarrow> qryInstCtrlBlock \<Rightarrow> SchMessage" where
  "poweroff_msg qryMgr icb =
     (SchMakeMessage (ptnMe qryMgr) (ptnInst icb) EvSchPoweroff BodyNil)\<lparr>TgtName := Some (name icb)\<rparr>"

definition qryMgrDelQcb :: "Scheduler \<Rightarrow> delWhy \<Rightarrow> DsKey \<Rightarrow> QryMgr \<Rightarrow> DhtErrno \<times> QryMgr" where
  "qryMgrDelQcb sdl why tgt qryMgr =
     (if why = delQcb4QryInstResultInd then (DhtEnoMismatched, qryMgr)
      else case map_of (qcbTab qryMgr) tgt of
        None \<Rightarrow> (DhtEnoNotFound, qryMgr)
      | Some qcb \<Rightarrow>
          if status qcb \<noteq> qsInited then
            (DhtEnoNone, qryMgr\<lparr>qcbTab := tab_delete tgt (qcbTab qryMgr)\<rparr>)
          else
            (let kills = (if qryTid qcb \<noteq> SchInvalidTid sdl
                          then [SchKillTimer (ptnMe qryMgr) (qryTid qcb)] else []);
                 pos = map (\<lambda>kv. SchSendMessage (poweroff_msg qryMgr (snd kv))) (qryActived qcb);
                 stop = (if rutNtfFlag qcb
                         then [SchSendMessage (SchMakeMessage (ptnMe qryMgr) (ptnRutMgr qryMgr)
                                 EvDhtRutMgrStopNotifyReq
                                 (BodyStopNotifyReq (ptnMe qryMgr) (target qcb)))]
                         else [])
             in (DhtEnoNone,
                 qryMgr\<lparr>sdlLog := sdlLog qryMgr @ kills @ pos @ stop,
                        qcbTab := tab_delete tgt (qcbTab qryMgr)\<rparr>)))"

subsection \<open>Reporting a result\<close>

text \<open>
  The copy loop of \<^verbatim>\<open>qryMgrResultReport\<close>:
  \<^verbatim>\<open>idx := 0; for el := li.Front(); el != nil; el = el.Next() { v := el.Value.(*qryResultInfo); ind.Peers[idx] = &v.node }\<close>;
  the source never changes \<^verbatim>\<open>idx\<close>.
\<close>

fun report_copy :: "qryResultInfo list \<Rightarrow> nat \<Rightarrow> Node option list \<Rightarrow> fault + Node option list" where
  "report_copy [] idx peers = Inr peers"
| "report_copy (v # rest) idx peers =
     (case set_at peers idx (Some (qri_node v)) of
        Inl e \<Rightarrow> Inl e
      | Inr peers' \<Rightarrow> report_copy rest idx peers')"

definition report_peers :: "qryResultInfo list option \<Rightarrow> fault + Node option list" where
  "report_peers li =
     (case li of
        None \<Rightarrow> Inl NilDereference
      | Some l \<Rightarrow> if length l > 0 then report_copy l 0 (replicate (length l) None) else Inr [])"

definition qryMgrResultReport ::
  "QryMgr \<Rightarrow> qryCtrlBlock \<Rightarrow> DhtErrno \<Rightarrow> byte list \<Rightarrow> Node option list option \<Rightarrow>
   fault + DhtErrno \<times> QryMgr" where
  "qryMgrResultReport qryMgr qcb eno val prd =
     (case report_peers (qryResult qcb) of
        Inl e \<Rightarrow> Inl e
      | Inr peers \<Rightarrow>
          (let ind = \<lparr>Eno = eno, ForWhat = forWhat qcb, Target = target qcb, Peers = peers,
                      Val = val, Prds = (case prd of None \<Rightarrow> [] | Some nodes \<Rightarrow> nodes)\<rparr>
           in Inr (DhtEnoNone,
                   send (SchMakeMessage (ptnMe qryMgr) (ptnOwner qcb) EvDhtQryMgrQueryResultInd
                           (BodyQueryResultInd ind)) qryMgr)))"

subsection \<open>The NAT address switch\<close>

text \<open>\<^verbatim>\<open>nat.NATP_TCP\<close>: \<^verbatim>\<open>natMakeMapRsp\<close> passes a protocol it has compared with
  the literal \<^verbatim>\<open>"tcp"\<close> to \<^verbatim>\<open>switch2NatAddr\<close>, which compares it with this constant.\<close>

definition NATP_TCP :: string where "NATP_TCP = ''tcp''"

text \<open>\<^verbatim>\<open>strings.ToLower\<close> on the ASCII letters.\<close>

definition ToLower :: "string \<Rightarrow> string" where
  "ToLower s = map (\<lambda>c. let n = (of_char c :: nat) in
                         if 65 \<le> n \<and> n \<le> 90 then char_of (n + 32) else c) s"

text \<open>\<^verbatim>\<open>net.IP.Equal\<close>: equal slices, or an IPv4 address and its IPv4-in-IPv6 form.\<close>

definition v4InV6Prefix :: "byte list" where
  "v4InV6Prefix = [0, 0, 0, 0, 0, 0, 0, 0, 0, 0, 0xff, 0xff]"

definition IP_Equal :: "byte list \<Rightarrow> byte list \<Rightarrow> bool" where
  "IP_Equal ip x =
     (if length ip = length x then ip = x
      else if length ip = 4 \<and> length x = 16 then take 12 x = v4InV6Prefix \<and> ip = drop 12 x
      else if length ip = 16 \<and> length x = 4 then take 12 ip = v4InV6Prefix \<and> drop 12 ip = x
      else False)"

definition switch2NatAddr :: "string \<Rightarrow> QryMgr \<Rightarrow> DhtErrno \<times> QryMgr" where
  "switch2NatAddr proto qryMgr =
     (if proto = NATP_TCP then
        (DhtEnoNone,
         qryMgr\<lparr>qmCfg := (qmCfg qryMgr)\<lparr>local := (local (qmCfg qryMgr))
           \<lparr>IP := pubTcpIp qryMgr,
            TCP := word_of_int (pubTcpPort qryMgr AND 0xffff)\<rparr>\<rparr>\<rparr>)
      else (DhtEnoParameter, qryMgr))"

text \<open>The loop of \<^verbatim>\<open>natMapSwitch\<close> over the entries of \<^verbatim>\<open>qcbTab\<close>.\<close>

fun natMapSwitch_loop ::
  "Scheduler \<Rightarrow> (DsKey \<times> qryCtrlBlock) list \<Rightarrow> QryMgr \<Rightarrow> DhtErrno \<times> QryMgr" where
  "natMapSwitch_loop sdl [] qryMgr = (DhtEnoNone, qryMgr)"
| "natMapSwitch_loop sdl ((k, qcb) # rest) qryMgr =
     (let ind = \<lparr>Eno = DhtEnoNatMapping, ForWhat = forWhat qcb, Target = k, Peers = [],
                 Val = [], Prds = []\<rparr>;
          q1 = (if ptnOwner qcb \<noteq> None
                then send (SchMakeMessage (ptnMe qryMgr) (ptnOwner qcb) EvDhtQryMgrQueryResultInd
                             (BodyQueryResultInd ind)) qryMgr
                else qryMgr)
      in case qryMgrDelQcb sdl delQcb4PubAddrSwitch k q1 of
           (eno, q2) \<Rightarrow> if eno \<noteq> DhtEnoNone then (eno, q2) else natMapSwitch_loop sdl rest q2)"

definition natMapSwitch :: "Scheduler \<Rightarrow> QryMgr \<Rightarrow> DhtErrno \<times> QryMgr" where
  "natMapSwitch sdl qryMgr =
     (case natMapSwitch_loop sdl (qcbTab qryMgr) qryMgr of
        (eno, q1) \<Rightarrow>
          if eno \<noteq> DhtEnoNone then (eno, q1)
          else (DhtEnoNone,
                send (SchMakeMessage (ptnMe q1) (ptnDhtMgr q1) EvDhtQryMgrPubAddrSwitchInd BodyNil)
                  (snd (switch2NatAddr NATP_TCP q1))))"

text \<open>
  \<^verbatim>\<open>natPubAddrUpdateInd\<close>. The message is first passed on to the connection manager.
  The new pair is stored in \<^verbatim>\<open>pubTcpIp\<close>, \<^verbatim>\<open>pubTcpPort\<close> before the test
  \<^verbatim>\<open>!oldResult || !ind.PubIp.Equal(qryMgr.pubTcpIp) || ind.PubPort != qryMgr.pubTcpPort\<close>
  reads these fields.
\<close>

definition natPubAddrUpdateInd ::
  "Scheduler \<Rightarrow> QryMgr \<Rightarrow> SchMessage \<Rightarrow> fault + SchErrno \<times> QryMgr" where
  "natPubAddrUpdateInd sdl qryMgr msg =
     (let q0 = send (msg\<lparr>recver := snd (SchGetUserTaskNode sdl ConMgrName)\<rparr>) qryMgr in
      case Body msg of
        BodyPubAddrUpdateInd ind \<Rightarrow>
          if ToLower (Proto ind) \<noteq> NATP_TCP then Inr (SchEnoParameter, q0)
          else
            (let oldResult = natTcpResult q0;
                 q1 = q0\<lparr>natTcpResult := NatIsStatusOk sdl (Status ind)\<rparr>
             in if \<not> natTcpResult q1 then Inr (SchEnoNone, q1)
                else
                  (let q2 = q1\<lparr>pubTcpIp := PubIp ind, pubTcpPort := PubPort ind\<rparr>
                   in if \<not> oldResult \<or> \<not> IP_Equal (PubIp ind) (pubTcpIp q2)
                           \<or> PubPort ind \<noteq> pubTcpPort q2
                      then (case natMapSwitch sdl q2 of
                              (eno, q3) \<Rightarrow>
                                if eno \<noteq> DhtEnoNone then Inr (SchEnoUserTask, q3)
                                else Inr (SchEnoNone, q3))
                      else Inr (SchEnoNone, q2)))
      | _ \<Rightarrow> Inl TypeAssertion)"

subsection \<open>The lists and the active instances of a control block\<close>










subsection \<open>An instance has completed: the status indication\<close>





subsection \<open>An instance has completed: the result indication\<close>















subsection \<open>Example values for the concrete evaluations\<close>

definition exampleScheduler :: Scheduler where
  "exampleScheduler =
     \<lparr>SchInvalidTid = - 1,
      SchGetUserTaskNode = (\<lambda>n. if n = ConMgrName then (SchEnoNone, Some 3) else (SchEnoNotFound, None)),
      SchCreateTask = (\<lambda>n. (SchEnoNone, Some 100)),
      NatIsStatusOk = (\<lambda>s. s = 0)\<rparr>"

definition exampleResult :: "byte \<Rightarrow> int \<Rightarrow> qryResultInfo" where
  "exampleResult k d = \<lparr>qri_node = exampleNode k, pcs = 0, qri_dist = d\<rparr>"

text \<open>An inited FIND_NODE query for the identity hash of peer 1, owned by task 7, with
  three results and nothing pending or active.\<close>

definition exampleQcb :: qryCtrlBlock where
  "exampleQcb =
     \<lparr>ptnOwner = Some 7, seq = 0, forWhat = MID_FINDNODE,
      target = exampleHash (replicate 64 1), status = qsInited,
      qryHistory = [], qryPending = Some [], qryActived = [],
      qryResult = Some [exampleResult 6 1, exampleResult 3 3, exampleResult 2 5],
      qryTid = 11, icbSeq = 0, rutNtfFlag = True, width = 0, depth = 0\<rparr>"

text \<open>A query manager that advertises 10.0.0.2:30303, with a good NAT status and the one
  query above outstanding.\<close>

definition exampleQryMgr :: QryMgr where
  "exampleQryMgr =
     \<lparr>ptnMe = Some 1, ptnRutMgr = Some 2, ptnDhtMgr = Some 4, ptnNatMgr = Some 5,
      qcbTab = [(exampleHash (replicate 64 1), exampleQcb)],
      qmCfg = \<lparr>local = exampleNode 2, maxPendings = 64, maxActInsts = 8\<rparr>,
      qcbSeq = 1, natTcpResult = True, pubTcpIp = [10, 0, 0, 2], pubTcpPort = 30303,
      sdlLog = []\<rparr>"

text \<open>The NAT manager's indication of the new public address 192.0.2.9:40000 for TCP,
  with an OK status.\<close>

definition exampleNatInd :: SchMessage where
  "exampleNatInd =
     SchMakeMessage (Some 5) (Some 1) EvNatMgrPubAddrUpdateInd
       (BodyPubAddrUpdateInd \<lparr>Proto = ''tcp'', Status = 0, PubIp = [192, 0, 2, 9], PubPort = 40000\<rparr>)"








section \<open>Peer manager and peer instance (p2p/peer/peer.go)\<close>

text \<open>
  A \<^verbatim>\<open>*peerInstance\<close> is an address: the number of the \<^verbatim>\<open>new(peerInstance)\<close> that
  made it. The manager's store \<open>insts\<close> maps each address to the instance it holds, so
  that the tables \<^verbatim>\<open>peers\<close>, \<^verbatim>\<open>nodes\<close> and \<^verbatim>\<open>workers\<close>, which hold pointers
  to the same instances, see each other's writes. A counter table of type
  \<^verbatim>\<open>map[SubNetworkID]int\<close> is an association list read with default 0. The calls to
  the scheduler, the socket and the discovery table are appended to the log \<open>peLog\<close>.
\<close>

datatype PeMgrErrno =
  PeMgrEnoNone | PeMgrEnoParameter | PeMgrEnoScheduler | PeMgrEnoConfig | PeMgrEnoResource
  | PeMgrEnoOs | PeMgrEnoMessage | PeMgrEnoDuplicated | PeMgrEnoNotfound | PeMgrEnoMismatched
  | PeMgrEnoInternal | PeMgrEnoPingpongTh | PeMgrEnoUnknown


definition peerConnectOutInited :: int where "peerConnectOutInited = 1"

definition peInstStateNull :: int where "peInstStateNull = 0"
definition peInstStateConnOut :: int where "peInstStateConnOut = 1"
definition peInstStateAccepted :: int where "peInstStateAccepted = 2"
definition peInstStateConnected :: int where "peInstStateConnected = 3"
definition peInstStateHandshook :: int where "peInstStateHandshook = 4"
definition peInstStateActivated :: int where "peInstStateActivated = 5"
definition peInstStateKilling :: int where "peInstStateKilling = - 1"
definition peInstStateKilled :: int where "peInstStateKilled = - 2"

definition PeInstDirInbound :: int where "PeInstDirInbound = 0"
definition PeInstDirOutbound :: int where "PeInstDirOutbound = 1"

type_synonym SubNetworkID = "byte list"
type_synonym PeerIdEx = "NodeID \<times> int"

datatype NetworkType = P2pNetworkTypeDynamic | P2pNetworkTypeStatic | P2pNetworkTypeOther

record Handshake =
  hs_Snid :: SubNetworkID
  hs_Dir :: int
  hs_NodeId :: NodeID
  hs_ProtoNum :: "32 word"

record P2pIndConnStatusPara =
  ind_Ptn :: "ptn option"
  ind_PeerInfo :: Handshake
  ind_Status :: PeMgrErrno
  ind_Flag :: bool
  ind_Description :: string

record MsgPeCloseReq =
  req_Ptn :: "ptn option"
  req_Snid :: SubNetworkID
  req_Node :: Node
  req_Dir :: int
  req_Why :: "P2pIndConnStatusPara option"

datatype PeEvent =
  EvPeConnOutReq | EvPeHandshakeReq | EvPeEstablishedInd | EvPePingpongReq | EvPeCloseReq
  | EvPeOutboundReq | EvPeLsnStartReq | EvPeLsnStopReq

datatype PeBody =
  PeBodyNil | PeBodySnid SubNetworkID | PeBodyCloseReq MsgPeCloseReq | PeBodyPingpongReq "64 word"

record PeMessage =
  pe_sender :: "ptn option"
  pe_recver :: "ptn option"
  pe_Id :: PeEvent
  pe_Body :: PeBody

datatype P2pInd =
  P2pIndPeerActivated "ptn option" Handshake
  | P2pIndPeerClosed "ptn option" SubNetworkID NodeID

datatype PeCall =
  PeSendMessage PeMessage
  | PeKillTimer "ptn option" int
  | PeStopTask "ptn option"
  | PeConnClose nat
  | PeTabBucketAddNode SubNetworkID Node
  | PeTabUpdateNode SubNetworkID Node

record peerInstance =
  pi_ptnMe :: "ptn option"
  ptnMgr :: "ptn option"
  state :: int
  dir :: int
  snid :: SubNetworkID
  pi_node :: Node
  protoNum :: "32 word"
  conn :: bool
  ppTid :: int
  ppSeq :: "64 word"
  ppCnt :: int
  ppEno :: PeMgrErrno
  rxEno :: PeMgrErrno
  txEno :: PeMgrErrno

record peMgrConfig =
  noDial :: bool
  noAccept :: bool
  bootstrapNode :: bool
  networkType :: NetworkType
  staticMaxPeers :: int
  staticMaxOutbounds :: int
  staticMaxInBounds :: int
  staticNodes :: "Node list"
  staticSubNetId :: SubNetworkID
  subNetMaxPeers :: "(SubNetworkID \<times> int) list"
  subNetMaxOutbounds :: "(SubNetworkID \<times> int) list"
  subNetMaxInBounds :: "(SubNetworkID \<times> int) list"
  subNetIdList :: "SubNetworkID list"
  ibpNumTotal :: int

record PeerManager =
  cfg :: peMgrConfig
  pe_ptnMe :: "ptn option"
  ptnLsn :: "ptn option"
  ibInstSeq :: int
  obInstSeq :: int
  insts :: "nat \<Rightarrow> peerInstance"
  nextInst :: nat
  peers :: "ptn \<rightharpoonup> nat"
  nodes :: "SubNetworkID \<rightharpoonup> (PeerIdEx \<rightharpoonup> nat)"
  workers :: "SubNetworkID \<rightharpoonup> (PeerIdEx \<rightharpoonup> nat)"
  wrkNum :: "(SubNetworkID \<times> int) list"
  ibpNum :: "(SubNetworkID \<times> int) list"
  obpNum :: "(SubNetworkID \<times> int) list"
  ibpTotalNum :: int
  indChan :: "P2pInd list"
  staticsStatus :: "PeerIdEx \<rightharpoonup> int"
  peLog :: "PeCall list"

subsection \<open>Go maps\<close>

definition cnt_get :: "('k \<times> int) list \<Rightarrow> 'k \<Rightarrow> int" where
  "cnt_get tab k = (case map_of tab k of None \<Rightarrow> 0 | Some n \<Rightarrow> n)"

definition cnt_add :: "'k \<Rightarrow> int \<Rightarrow> ('k \<times> int) list \<Rightarrow> ('k \<times> int) list" where
  "cnt_add k delta tab = tab_store k (cnt_get tab k + delta) tab"

text \<open>Reading \<^verbatim>\<open>m[snid][idEx]\<close>: a missing inner map reads as an empty one.\<close>

definition get2 :: "('a \<rightharpoonup> ('b \<rightharpoonup> 'c)) \<Rightarrow> 'a \<Rightarrow> 'b \<Rightarrow> 'c option" where
  "get2 m a b = (case m a of None \<Rightarrow> None | Some inner \<Rightarrow> inner b)"

text \<open>\<^verbatim>\<open>delete(m[snid], idEx)\<close>: nothing happens on a missing inner map.\<close>

definition del2 :: "('a \<rightharpoonup> ('b \<rightharpoonup> 'c)) \<Rightarrow> 'a \<Rightarrow> 'b \<Rightarrow> ('a \<rightharpoonup> ('b \<rightharpoonup> 'c))" where
  "del2 m a b = (case m a of None \<Rightarrow> m | Some inner \<Rightarrow> m(a \<mapsto> inner(b := None)))"




subsection \<open>The pingpong counter of an instance\<close>





subsection \<open>Helpers of the manager\<close>

definition updateStaticStatus ::
  "SubNetworkID \<Rightarrow> PeerIdEx \<Rightarrow> int \<Rightarrow> PeerManager \<Rightarrow> PeerManager" where
  "updateStaticStatus sn idEx st peMgr =
     (if sn = staticSubNetId (cfg peMgr) then
        (case staticsStatus peMgr idEx of
           Some old \<Rightarrow> peMgr\<lparr>staticsStatus := (staticsStatus peMgr)(idEx \<mapsto> st)\<rparr>
         | None \<Rightarrow> peMgr)
      else peMgr)"





definition peers_delete :: "ptn option \<Rightarrow> PeerManager \<Rightarrow> PeerManager" where
  "peers_delete p peMgr =
     (case p of None \<Rightarrow> peMgr | Some k \<Rightarrow> peMgr\<lparr>peers := (peers peMgr)(k := None)\<rparr>)"



subsection \<open>Killing an instance\<close>

text \<open>The part of \<^verbatim>\<open>peMgrKillInst\<close> that removes the instance from the tables and
  adjusts the counters, by the direction of the instance.\<close>

definition kill_unmap :: "ptn option \<Rightarrow> nat \<Rightarrow> PeerManager \<Rightarrow> PeerManager" where
  "kill_unmap p a peMgr =
     (let peInst = insts peMgr a;
          sn = snid peInst;
          idEx = (ID (pi_node peInst), dir peInst);
          q1 = (if get2 (workers peMgr) sn idEx \<noteq> None
                then peMgr\<lparr>workers := del2 (workers peMgr) sn idEx,
                           wrkNum := cnt_add sn (- 1) (wrkNum peMgr)\<rparr>
                else peMgr)
      in if dir peInst = PeInstDirOutbound then
           (peers_delete p (q1\<lparr>nodes := del2 (nodes q1) sn idEx\<rparr>))
             \<lparr>obpNum := cnt_add sn (- 1) (obpNum q1)\<rparr>
         else if dir peInst = PeInstDirInbound then
           (let q2 = peers_delete p q1;
                q3 = (if get2 (nodes q2) sn idEx \<noteq> None
                      then q2\<lparr>nodes := del2 (nodes q2) sn idEx\<rparr> else q2);
                q4 = q3\<lparr>ibpTotalNum := ibpTotalNum q3 - 1\<rparr>
            in if state peInst = peInstStateActivated \<or> state peInst = peInstStateKilling
               then q4\<lparr>ibpNum := cnt_add sn (- 1) (ibpNum q4)\<rparr>
               else q4)
         else q1)"


subsection \<open>The state-compare kill\<close>



subsection \<open>An accepted connection\<close>



subsection \<open>The handshake response\<close>









subsection \<open>Example values for the concrete evaluations\<close>









section \<open>Theorems: the route manager\<close>

subsection \<open>The lookup table and the log2 distance\<close>










subsection \<open>The first update after the set-up\<close>

text \<open>
  Claim C9 (the code departs from it). \<^verbatim>\<open>rutMgrSetupRouteTable\<close> leaves a bucket
  sequence of length 0, not one empty bucket, and the first \<^verbatim>\<open>update\<close> then
  executes \<^verbatim>\<open>rt.bucketTab[0] = list.New()\<close> on that empty slice: it indexes outside
  the bucket sequence and panics, for every peer and every distance.
\<close>

theorem first_update_after_setup_panics:
  "bucketTab (rutTab (snd (rutMgrSetupRouteTable nodeId2Hash rutMgr))) = [] \<and>
   update (rutTab (snd (rutMgrSetupRouteTable nodeId2Hash rutMgr))) bn dst
     = Some (Inl IndexOutOfRange)"
  by (simp add: rutMgrSetupRouteTable_def update_def set_at_def)

subsection \<open>The lookup of an update\<close>

lemma find_loop_returns:
  assumes "find_loop li nid el = Some r"
  shows "case el of None \<Rightarrow> True | Some i \<Rightarrow> ID (node (li ! i)) = nid"
proof (rule find_loop.raw_induct
    [where P = "\<lambda>li nid el r. case el of None \<Rightarrow> True | Some i \<Rightarrow> ID (node (li ! i)) = nid",
      OF _ assms])
  fix f li nid el r
  assume IH: "\<And>li nid el r. f li nid el = Some r \<Longrightarrow>
          (case el of None \<Rightarrow> True | Some i \<Rightarrow> ID (node (li ! i)) = nid)"
    and body: "(case el of None \<Rightarrow> Some (DhtEnoNotFound, None)
        | Some i \<Rightarrow> if ID (node (li ! i)) = nid then Some (DhtEnoNone, Some i)
            else let dropped = el_Next li i in f li nid el) = Some r"
  show "case el of None \<Rightarrow> True | Some i \<Rightarrow> ID (node (li ! i)) = nid"
  proof (cases el)
    case None
    then show ?thesis by simp
  next
    case (Some i)
    show ?thesis
    proof (cases "ID (node (li ! i)) = nid")
      case True
      with Some show ?thesis by simp
    next
      case False
      with Some body have "f li nid el = Some r" by (simp add: Let_def)
      from IH[OF this] show ?thesis .
    qed
  qed
qed

text \<open>The loop never returns once it stands on an element with another identity.\<close>

lemma find_loop_stuck:
  "ID (node (li ! i)) \<noteq> nid \<Longrightarrow> find_loop li nid (Some i) = None"
  using find_loop_returns[of li nid "Some i"] by (cases "find_loop li nid (Some i)") auto

text \<open>It returns the front element when that one has the identity looked for.\<close>

lemma update_of_front_peer:
  "update (rutTab exampleRutMgr) (examplePeer 3) 0 = Some (Inr (DhtEnoNone, rutTab exampleRutMgr))"
  by (simp add: update_def update_body_def find_def exampleRutMgr_def el_Front_def
      find_loop.simps update_found_def MoveToFront_def)

text \<open>
  Claim C8 (the code departs from it). The peer 6 is present in the bucket of its
  distance, behind the peer 3. The lookup of \<^verbatim>\<open>update\<close> compares the front element,
  and its post statement \<^verbatim>\<open>el.Next()\<close> does not advance \<^verbatim>\<open>el\<close>: the update
  never returns, and the entry is not moved to the front.
\<close>

theorem update_of_present_peer_never_returns:
  "update (rutTab exampleRutMgr) (examplePeer 6) 0 = None"
proof -
  have "ID (node ([examplePeer 3, examplePeer 6] ! 0)) \<noteq> ID (node (examplePeer 6))"
    by (simp add: examplePeer_def exampleNode_def)
  from find_loop_stuck[OF this] show ?thesis
    by (simp add: update_def update_body_def find_def exampleRutMgr_def el_Front_def)
qed

subsection \<open>Nearest peers\<close>

lemma rutMgrSortPeer_leaves_descending:
  "rutMgrSortPeer [p, q] [3, 1] = Inr ([p, q], [3, 1])"
  by (simp add: rutMgrSortPeer_def sort_index_def swap_def upt_rec)

text \<open>
  Claim C2 (the code departs from it). The target is the identity of 64 bytes of 1; the
  peers 3 and 6 of the only bucket are at the distances 3 and 1 from its hash.
  \<^verbatim>\<open>rutMgrNearest\<close> with size 2 returns them in the order 3, 1: the swaps of
  \<^verbatim>\<open>rutMgrSortPeer\<close> undo each other, and the result is not in ascending order.
\<close>

theorem rutMgrNearest_result_not_ascending:
  "rutMgrNearest exampleHash exampleRutMgr (replicate 64 1) 2
     = Inr (DhtEnoNone, [examplePeer 3, examplePeer 6], [3, 1]) \<and>
   \<not> sorted [3, 1 :: int]"
proof -
  have "rutMgrNearest exampleHash exampleRutMgr (replicate 64 1) 2
     = Inr (DhtEnoNone, [examplePeer 3, examplePeer 6], [3, 1])"
    by code_simp
  then show ?thesis by simp
qed

section \<open>Theorems: the query manager\<close>

subsection \<open>The peers of a result indication\<close>

lemma report_copy_index_0:
  "0 < length ps \<Longrightarrow>
   report_copy li 0 ps
     = Inr (if li = [] then ps else ps[0 := Some (qri_node (last li))])"
  by (induction li arbitrary: ps) (auto simp: set_at_def)

lemma report_peers_nonempty:
  "li \<noteq> [] \<Longrightarrow>
   report_peers (Some li) = Inr (Some (qri_node (last li)) # replicate (length li - 1) None)"
  by (cases li) (simp_all add: report_peers_def report_copy_index_0 del: report_copy.simps)

text \<open>
  Claim C10. When \<^verbatim>\<open>qryMgrResultReport\<close> runs on a control block whose result list
  is not empty and has \<open>n\<close> elements, it sends one \<^verbatim>\<open>EvDhtQryMgrQueryResultInd\<close> to
  the owner; the \<^verbatim>\<open>Peers\<close> of the indication have length \<open>n\<close>, the entry at index 0
  is the node of the last element of the result list, and every entry at the indices
  1 to \<open>n - 1\<close> is nil.
\<close>

theorem qryMgrResultReport_peers_only_index_0:
  assumes "qryResult qcb = Some li" and "li \<noteq> []"
  shows "\<exists>ind. qryMgrResultReport qryMgr qcb eno val prd
           = Inr (DhtEnoNone,
                  qryMgr\<lparr>sdlLog := sdlLog qryMgr @
                    [SchSendMessage (SchMakeMessage (ptnMe qryMgr) (ptnOwner qcb)
                       EvDhtQryMgrQueryResultInd (BodyQueryResultInd ind))]\<rparr>) \<and>
         Eno ind = eno \<and>
         length (Peers ind) = length li \<and>
         Peers ind ! 0 = Some (qri_node (last li)) \<and>
         (\<forall>i. 1 \<le> i \<and> i < length li \<longrightarrow> Peers ind ! i = None)"
proof -
  let ?ps = "Some (qri_node (last li)) # replicate (length li - 1) None"
  let ?ind = "\<lparr>Eno = eno, ForWhat = forWhat qcb, Target = target qcb, Peers = ?ps,
               Val = val, Prds = (case prd of None \<Rightarrow> [] | Some ns \<Rightarrow> ns)\<rparr>"
  have run: "qryMgrResultReport qryMgr qcb eno val prd
           = Inr (DhtEnoNone,
                  qryMgr\<lparr>sdlLog := sdlLog qryMgr @
                    [SchSendMessage (SchMakeMessage (ptnMe qryMgr) (ptnOwner qcb)
                       EvDhtQryMgrQueryResultInd (BodyQueryResultInd ?ind))]\<rparr>)"
    using assms by (simp add: qryMgrResultReport_def report_peers_nonempty send_def)
  have len: "length ?ps = length li"
    using assms(2) by (cases li) simp_all
  have rest: "\<forall>i. 1 \<le> i \<and> i < length li \<longrightarrow> ?ps ! i = None"
    by (auto simp: nth_Cons split: nat.splits)
  show ?thesis
    by (rule exI[of _ ?ind]) (use run len rest in simp)
qed

theorem qryMgrResultReport_peers_only_index_0_witness:
  "qryResult exampleQcb = Some [exampleResult 6 1, exampleResult 3 3, exampleResult 2 5] \<and>
   (\<exists>ind. qryMgrResultReport exampleQryMgr exampleQcb DhtEnoNotFound [] None
           = Inr (DhtEnoNone,
                  exampleQryMgr\<lparr>sdlLog := sdlLog exampleQryMgr @
                    [SchSendMessage (SchMakeMessage (ptnMe exampleQryMgr) (ptnOwner exampleQcb)
                       EvDhtQryMgrQueryResultInd (BodyQueryResultInd ind))]\<rparr>) \<and>
         Eno ind = DhtEnoNotFound \<and>
         length (Peers ind) = 3 \<and>
         Peers ind ! 0 = Some (exampleNode 2) \<and>
         Peers ind ! 1 = None \<and> Peers ind ! 2 = None)"
proof -
  have r: "qryResult exampleQcb = Some [exampleResult 6 1, exampleResult 3 3, exampleResult 2 5]"
    by (simp add: exampleQcb_def)
  have ne: "[exampleResult 6 1, exampleResult 3 3, exampleResult 2 5] \<noteq> []" by simp
  from qryMgrResultReport_peers_only_index_0[OF r ne, of exampleQryMgr DhtEnoNotFound "[]" None]
  obtain ind where
    "qryMgrResultReport exampleQryMgr exampleQcb DhtEnoNotFound [] None
           = Inr (DhtEnoNone,
                  exampleQryMgr\<lparr>sdlLog := sdlLog exampleQryMgr @
                    [SchSendMessage (SchMakeMessage (ptnMe exampleQryMgr) (ptnOwner exampleQcb)
                       EvDhtQryMgrQueryResultInd (BodyQueryResultInd ind))]\<rparr>)"
    "Eno ind = DhtEnoNotFound"
    "length (Peers ind) = 3"
    "Peers ind ! 0 = Some (exampleNode 2)"
    "Peers ind ! 1 = None" "Peers ind ! 2 = None"
    by (auto simp: exampleResult_def)
  with r show ?thesis by blast
qed

subsection \<open>The public address update\<close>

lemma IP_Equal_refl: "IP_Equal ip ip"
  by (simp add: IP_Equal_def)

text \<open>
  Claim C1 (the code departs from it). The NAT manager indicates, for TCP and with an OK
  status, a public address; the previous NAT status was OK as well. Whatever the new pair
  is, also one that differs from the pair advertised so far, the handler only passes the
  message on to the connection manager and stores the pair in \<^verbatim>\<open>pubTcpIp\<close> and
  \<^verbatim>\<open>pubTcpPort\<close>: no \<^verbatim>\<open>QueryResultInd\<close> is sent, no control block is deleted,
  the local node record keeps the old address and no \<^verbatim>\<open>PubAddrSwitchInd\<close> is sent.
\<close>

theorem natPubAddrUpdateInd_skips_switch:
  assumes "Body msg = BodyPubAddrUpdateInd ind"
    and "ToLower (Proto ind) = NATP_TCP"
    and "NatIsStatusOk sdl (Status ind)"
    and "natTcpResult qryMgr"
  shows "natPubAddrUpdateInd sdl qryMgr msg
           = Inr (SchEnoNone,
                  qryMgr\<lparr>pubTcpIp := PubIp ind, pubTcpPort := PubPort ind,
                         sdlLog := sdlLog qryMgr @
                           [SchSendMessage (msg\<lparr>recver := snd (SchGetUserTaskNode sdl ConMgrName)\<rparr>)]\<rparr>)"
  using assms by (simp add: natPubAddrUpdateInd_def Let_def send_def IP_Equal_refl)

theorem natPubAddrUpdateInd_skips_switch_witness:
  "Body exampleNatInd
     = BodyPubAddrUpdateInd \<lparr>Proto = ''tcp'', Status = 0, PubIp = [192, 0, 2, 9], PubPort = 40000\<rparr> \<and>
   NatIsStatusOk exampleScheduler 0 \<and> natTcpResult exampleQryMgr \<and>
   (pubTcpIp exampleQryMgr, pubTcpPort exampleQryMgr) \<noteq> ([192, 0, 2, 9], 40000) \<and>
   natPubAddrUpdateInd exampleScheduler exampleQryMgr exampleNatInd
     = Inr (SchEnoNone,
            exampleQryMgr\<lparr>pubTcpIp := [192, 0, 2, 9], pubTcpPort := 40000,
              sdlLog := [SchSendMessage (exampleNatInd\<lparr>recver := Some 3\<rparr>)]\<rparr>) \<and>
   qcbTab (exampleQryMgr\<lparr>pubTcpIp := [192, 0, 2, 9], pubTcpPort := 40000,
              sdlLog := [SchSendMessage (exampleNatInd\<lparr>recver := Some 3\<rparr>)]\<rparr>)
     = [(exampleHash (replicate 64 1), exampleQcb)] \<and>
   IP (local (qmCfg (exampleQryMgr\<lparr>pubTcpIp := [192, 0, 2, 9], pubTcpPort := 40000,
              sdlLog := [SchSendMessage (exampleNatInd\<lparr>recver := Some 3\<rparr>)]\<rparr>)))
     = [10, 0, 0, 2]"
proof -
  have b: "Body exampleNatInd
     = BodyPubAddrUpdateInd \<lparr>Proto = ''tcp'', Status = 0, PubIp = [192, 0, 2, 9], PubPort = 40000\<rparr>"
    by (simp add: exampleNatInd_def SchMakeMessage_def)
  have p: "ToLower (Proto \<lparr>Proto = ''tcp'', Status = 0, PubIp = [192, 0, 2, 9], PubPort = 40000\<rparr>)
     = NATP_TCP"
    by (simp add: ToLower_def NATP_TCP_def)
  have s: "NatIsStatusOk exampleScheduler
     (Status \<lparr>Proto = ''tcp'', Status = 0, PubIp = [192, 0, 2, 9], PubPort = 40000\<rparr>)"
    by (simp add: exampleScheduler_def)
  have r: "natTcpResult exampleQryMgr" by (simp add: exampleQryMgr_def)
  from natPubAddrUpdateInd_skips_switch[OF b p s r] b s r
  show ?thesis
    by (simp add: exampleScheduler_def) (simp add: exampleQryMgr_def exampleNode_def)
qed

subsection \<open>The final report of a query\<close>















section \<open>Theorems: the peer instance and the peer manager\<close>

subsection \<open>The pingpong threshold\<close>







subsection \<open>What the handlers do to the tables and the counters\<close>

lemma upd_fields [simp]:
  "peers (updateStaticStatus sn i st q) = peers q"
  "insts (updateStaticStatus sn i st q) = insts q"
  "nodes (updateStaticStatus sn i st q) = nodes q"
  "workers (updateStaticStatus sn i st q) = workers q"
  "ibpTotalNum (updateStaticStatus sn i st q) = ibpTotalNum q"
  "ibpNum (updateStaticStatus sn i st q) = ibpNum q"
  "cfg (updateStaticStatus sn i st q) = cfg q"
  "peLog (updateStaticStatus sn i st q) = peLog q"
  "pe_ptnMe (updateStaticStatus sn i st q) = pe_ptnMe q"
  "ptnLsn (updateStaticStatus sn i st q) = ptnLsn q"
  by (simp_all add: updateStaticStatus_def split: option.splits)

lemma kill_unmap_fields [simp]:
  "insts (kill_unmap p a q) = insts q"
  "cfg (kill_unmap p a q) = cfg q"
  "peLog (kill_unmap p a q) = peLog q"
  "pe_ptnMe (kill_unmap p a q) = pe_ptnMe q"
  "ptnLsn (kill_unmap p a q) = ptnLsn q"
  by (simp_all add: kill_unmap_def Let_def peers_delete_def split: option.splits)











subsection \<open>Duplicate resolution\<close>

lemma peInstState_order:
  "peInstStateKilled < peInstStateKilling \<and> peInstStateKilling < peInstStateNull \<and>
   peInstStateNull < peInstStateConnOut \<and> peInstStateConnOut < peInstStateAccepted \<and>
   peInstStateAccepted < peInstStateConnected \<and> peInstStateConnected < peInstStateHandshook \<and>
   peInstStateHandshook < peInstStateActivated"
  by (simp add: peInstStateKilled_def peInstStateKilling_def peInstStateNull_def
      peInstStateConnOut_def peInstStateAccepted_def peInstStateConnected_def
      peInstStateHandshook_def peInstStateActivated_def)




subsection \<open>The inbound counters\<close>









end
